theory Spec2Isabelle
  imports Complex_Main
begin

section \<open>Named sounds: the module \<open>src/app/sounds.js\<close>\<close>

text \<open>
  The module binds a constant object \<open>audio\<close> whose five properties each hold a
  freshly constructed platform audio element, and exports \<open>playSound\<close> and
  \<open>stopSound\<close>, which look an element up by name and command it.

  JavaScript objects are references, so the model keeps a store: the properties of
  \<open>audio\<close> map a name to an address, and the heap maps an address to the element's
  state. An exception is a value (\<open>Inl\<close>) returned together with the store as it is at
  the moment of the throw, so that what a failing call has done is visible.
\<close>

subsection \<open>The platform's audio element\<close>

type_synonym ref = nat

datatype playback = Idle | Playing

text \<open>The asynchronous result of a play command.\<close>

datatype promise = Fulfilled | Rejected

text \<open>
  Modelled from the spec: the platform's audio element (the class \<open>Audio\<close>, not part
  of the repository). An element belongs to one resource path and carries a playback
  position and a playing/paused flag. \<open>media_error\<close> stands for a platform-level
  failure such as a resource that does not decode; the module never reads it.
\<close>

record audio_elem =
  src :: string
  status :: playback
  currentTime :: real
  media_error :: bool

text \<open>
  Modelled from the spec: \<open>new Audio(url)\<close> constructs an idle element at position
  zero for the resource at \<open>url\<close>.
\<close>

definition Audio :: "string \<Rightarrow> audio_elem" where
  "Audio url = \<lparr>src = url, status = Idle, currentTime = 0, media_error = False\<rparr>"

text \<open>
  Modelled from the spec: \<open>play()\<close> begins or resumes playback from the stored
  position and returns at once; a playback failure is reported through the promise.
\<close>

definition play :: "audio_elem \<Rightarrow> promise \<times> audio_elem" where
  "play c = (if media_error c then Rejected else Fulfilled, c\<lparr>status := Playing\<rparr>)"

text \<open>Modelled from the spec: \<open>pause()\<close> halts playback and keeps the position.\<close>

definition pause :: "audio_elem \<Rightarrow> audio_elem" where
  "pause c = c\<lparr>status := Idle\<rparr>"

text \<open>Modelled from the spec: the position is a mutable property of the element.\<close>

definition set_currentTime :: "real \<Rightarrow> audio_elem \<Rightarrow> audio_elem" where
  "set_currentTime t c = c\<lparr>currentTime := t\<rparr>"

subsection \<open>The store\<close>

record state =
  audio :: "(string \<times> ref) list"
  heap :: "ref \<Rightarrow> audio_elem"
  fresh :: ref

text \<open>\<open>new Audio(url)\<close> as an expression: allocate the element at the next address.\<close>

definition new_Audio :: "string \<Rightarrow> state \<Rightarrow> ref \<times> state" where
  "new_Audio url s =
     (fresh s, s\<lparr>heap := (heap s)(fresh s := Audio url), fresh := Suc (fresh s)\<rparr>)"

text \<open>
  An object literal \<open>{ k1: new Audio(u1), k2: new Audio(u2), ... }\<close>: the property
  values are evaluated in the order written, and the properties keep that order.
\<close>

fun object_literal :: "(string \<times> string) list \<Rightarrow> state \<Rightarrow> (string \<times> ref) list \<times> state" where
  "object_literal [] s = ([], s)"
| "object_literal ((k, url) # kvs) s =
     (case new_Audio url s of (r, s1) \<Rightarrow>
        (case object_literal kvs s1 of (props, s2) \<Rightarrow> ((k, r) # props, s2)))"

text \<open>Lines 1 to 7 of the module: the keys of the literal and the paths they load.\<close>

definition sound_table :: "(string \<times> string) list" where
  "sound_table =
     [(''alert'', ''/sound/alert.wav''),
      (''success'', ''/sound/success.wav''),
      (''error'', ''/sound/error.wav''),
      (''btn-on'', ''/sound/btn_on.ogg''),
      (''btn-off'', ''/sound/btn_off.ogg'')]"

definition sound_names :: "string list" where
  "sound_names = [''alert'', ''success'', ''error'', ''btn-on'', ''btn-off'']"

text \<open>The store before the module is loaded: no property, no element allocated.\<close>

definition empty_state :: state where
  "empty_state = \<lparr>audio = [], heap = (\<lambda>_. Audio []), fresh = 0\<rparr>"

text \<open>Loading the module evaluates the literal and binds the constant \<open>audio\<close>.\<close>

definition module_init :: "state \<Rightarrow> state" where
  "module_init s = (case object_literal sound_table s of (props, s') \<Rightarrow> s'\<lparr>audio := props\<rparr>)"

definition init_state :: state where
  "init_state = module_init empty_state"

text \<open>
  A store of the loaded module: \<open>audio\<close> holds the properties the literal gave it.
  The elements themselves are arbitrary (any flag, any position, any failure).
\<close>

definition loaded :: "state \<Rightarrow> bool" where
  "loaded s = (audio s = audio init_state)"

subsection \<open>Property lookup\<close>

text \<open>
  \<open>audio[sound]\<close> on a plain object: an own property if there is one, otherwise a
  member inherited from \<open>Object.prototype\<close> (a built-in function, or the prototype
  object itself for \<open>__proto__\<close>), otherwise \<open>undefined\<close>.
\<close>

datatype jsval = Undefined | Elem ref | Inherited

definition object_prototype_keys :: "string list" where
  "object_prototype_keys =
     [''constructor'', ''hasOwnProperty'', ''isPrototypeOf'', ''propertyIsEnumerable'',
      ''toLocaleString'', ''toString'', ''valueOf'', ''__proto__'',
      ''__defineGetter__'', ''__defineSetter__'', ''__lookupGetter__'', ''__lookupSetter__'']"

definition audio_get :: "state \<Rightarrow> string \<Rightarrow> jsval" where
  "audio_get s sound =
     (case map_of (audio s) sound of
        Some r \<Rightarrow> Elem r
      | None \<Rightarrow> if sound \<in> set object_prototype_keys then Inherited else Undefined)"

subsection \<open>The exported functions\<close>

text \<open>
  The one error the module can raise is the runtime's \<open>TypeError\<close> (the spec's
  LookupError): reading a member of \<open>undefined\<close>, or calling a member that is not there.
\<close>

datatype error = TypeError

text \<open>
  \<open>audio[sound].play();\<close> The promise that \<open>play()\<close> returns is dropped: the call is
  an expression statement.
\<close>

definition playSound :: "string \<Rightarrow> state \<Rightarrow> (error + unit) \<times> state" where
  "playSound sound s =
     (case audio_get s sound of
        Undefined \<Rightarrow> (Inl TypeError, s)
      | Inherited \<Rightarrow> (Inl TypeError, s)
      | Elem r \<Rightarrow>
          (case play (heap s r) of (p, c) \<Rightarrow> (Inr (), s\<lparr>heap := (heap s)(r := c)\<rparr>)))"

text \<open>\<open>audio[sound].pause();\<close>\<close>

definition stmt_pause :: "string \<Rightarrow> state \<Rightarrow> (error + unit) \<times> state" where
  "stmt_pause sound s =
     (case audio_get s sound of
        Undefined \<Rightarrow> (Inl TypeError, s)
      | Inherited \<Rightarrow> (Inl TypeError, s)
      | Elem r \<Rightarrow> (Inr (), s\<lparr>heap := (heap s)(r := pause (heap s r))\<rparr>))"

text \<open>
  \<open>audio[sound].currentTime = 0;\<close> The property is looked up again. Writing to a
  member of \<open>undefined\<close> throws; a write to an inherited built-in object lands
  outside the registry and the elements.
\<close>

definition stmt_reset :: "string \<Rightarrow> state \<Rightarrow> (error + unit) \<times> state" where
  "stmt_reset sound s =
     (case audio_get s sound of
        Undefined \<Rightarrow> (Inl TypeError, s)
      | Inherited \<Rightarrow> (Inr (), s)
      | Elem r \<Rightarrow> (Inr (), s\<lparr>heap := (heap s)(r := set_currentTime 0 (heap s r))\<rparr>))"

text \<open>The body of \<open>stopSound\<close>: the second statement runs only if the first returns.\<close>

definition stopSound :: "string \<Rightarrow> state \<Rightarrow> (error + unit) \<times> state" where
  "stopSound sound s =
     (case stmt_pause sound s of
        (Inl e, s1) \<Rightarrow> (Inl e, s1)
      | (Inr _, s1) \<Rightarrow> stmt_reset sound s1)"

subsection \<open>Callers\<close>

text \<open>What a caller can see of the element bound to a name.\<close>

definition clip :: "state \<Rightarrow> string \<Rightarrow> audio_elem option" where
  "clip s sound = map_option (heap s) (map_of (audio s) sound)"

datatype call = PlaySound string | StopSound string

fun exec :: "call \<Rightarrow> state \<Rightarrow> (error + unit) \<times> state" where
  "exec (PlaySound sound) s = playSound sound s"
| "exec (StopSound sound) s = stopSound sound s"

text \<open>
  A sequence of calls. A caller that catches the exception of one call goes on with the
  store that call left.
\<close>

fun run :: "call list \<Rightarrow> state \<Rightarrow> state" where
  "run [] s = s"
| "run (c # cs) s = run cs (snd (exec c s))"

text \<open>The calls of a sequence one by one, each with the store before and after it.\<close>

fun trace :: "call list \<Rightarrow> state \<Rightarrow> (state \<times> call \<times> state) list" where
  "trace [] s = []"
| "trace (c # cs) s = (s, c, snd (exec c s)) # trace cs (snd (exec c s))"

fun target :: "call \<Rightarrow> string" where
  "target (PlaySound sound) = sound"
| "target (StopSound sound) = sound"

text \<open>
  The transitions of an element's flag as the spec lists them: idle to playing by a
  play, playing to idle by a stop, playing to playing by a repeated play.
\<close>

fun spec_transition :: "playback \<Rightarrow> call \<Rightarrow> playback \<Rightarrow> bool" where
  "spec_transition Idle (PlaySound _) Playing = True"
| "spec_transition Playing (StopSound _) Idle = True"
| "spec_transition Playing (PlaySound _) Playing = True"
| "spec_transition _ _ _ = False"

text \<open>The same three, and idle to idle by a stop.\<close>

fun flag_transition :: "playback \<Rightarrow> call \<Rightarrow> playback \<Rightarrow> bool" where
  "flag_transition Idle (PlaySound _) Playing = True"
| "flag_transition Playing (StopSound _) Idle = True"
| "flag_transition Playing (PlaySound _) Playing = True"
| "flag_transition Idle (StopSound _) Idle = True"
| "flag_transition _ _ _ = False"

subsection \<open>Example stores\<close>

text \<open>The loaded module with the alert element playing, two and a half seconds in.\<close>

definition alert_playing :: state where
  "alert_playing =
     init_state\<lparr>heap := (heap init_state)
       (0 := \<lparr>src = ''/sound/alert.wav'', status = Playing, currentTime = 5 / 2,
              media_error = False\<rparr>)\<rparr>"

text \<open>The loaded module with an alert resource that the platform could not decode.\<close>

definition alert_broken :: state where
  "alert_broken =
     init_state\<lparr>heap := (heap init_state)
       (0 := \<lparr>src = ''/sound/alert.wav'', status = Idle, currentTime = 0,
              media_error = True\<rparr>)\<rparr>"

section \<open>Properties\<close>

lemma audio_init_state:
  "audio init_state =
     [(''alert'', 0), (''success'', 1), (''error'', 2), (''btn-on'', 3), (''btn-off'', 4)]"
  by (simp add: init_state_def module_init_def sound_table_def new_Audio_def empty_state_def
      numeral_eq_Suc)

lemma heap_init_state:
  "heap init_state =
     (\<lambda>_. Audio [])
       (0 := Audio ''/sound/alert.wav'', 1 := Audio ''/sound/success.wav'',
        2 := Audio ''/sound/error.wav'', 3 := Audio ''/sound/btn_on.ogg'',
        4 := Audio ''/sound/btn_off.ogg'')"
  by (simp add: init_state_def module_init_def sound_table_def new_Audio_def empty_state_def
      numeral_eq_Suc)

subsection \<open>The registry of a loaded store\<close>

lemma loaded_valid:
  "loaded s \<Longrightarrow> N \<in> set sound_names \<Longrightarrow> \<exists>r. map_of (audio s) N = Some r"
  by (auto simp: loaded_def audio_init_state sound_names_def)

lemma loaded_invalid:
  "loaded s \<Longrightarrow> N \<notin> set sound_names \<Longrightarrow> map_of (audio s) N = None"
  by (simp add: loaded_def audio_init_state sound_names_def)

lemma loaded_distinct:
  "loaded s \<Longrightarrow> map_of (audio s) N = Some r \<Longrightarrow> map_of (audio s) M = Some r \<Longrightarrow> M = N"
  by (simp add: loaded_def audio_init_state split: if_splits)

subsection \<open>What the two functions compute\<close>

lemma playSound_bound:
  "map_of (audio s) N = Some r \<Longrightarrow>
   playSound N s = (Inr (), s\<lparr>heap := (heap s)(r := (heap s r)\<lparr>status := Playing\<rparr>)\<rparr>)"
  by (simp add: playSound_def audio_get_def play_def)

lemma stopSound_bound:
  "map_of (audio s) N = Some r \<Longrightarrow>
   stopSound N s =
     (Inr (), s\<lparr>heap := (heap s)(r := (heap s r)\<lparr>status := Idle, currentTime := 0\<rparr>)\<rparr>)"
  by (simp add: stopSound_def stmt_pause_def stmt_reset_def audio_get_def pause_def
      set_currentTime_def)

lemma playSound_unbound:
  "map_of (audio s) N = None \<Longrightarrow> playSound N s = (Inl TypeError, s)"
  by (simp add: playSound_def audio_get_def)

lemma stmt_pause_unbound:
  "map_of (audio s) N = None \<Longrightarrow> stmt_pause N s = (Inl TypeError, s)"
  by (simp add: stmt_pause_def audio_get_def)

lemma stopSound_unbound:
  "map_of (audio s) N = None \<Longrightarrow> stopSound N s = (Inl TypeError, s)"
  by (simp add: stopSound_def stmt_pause_unbound)

subsection \<open>The registry is preserved\<close>

lemma audio_playSound: "audio (snd (playSound N s)) = audio s"
  by (cases "map_of (audio s) N") (simp_all add: playSound_bound playSound_unbound)

lemma audio_stopSound: "audio (snd (stopSound N s)) = audio s"
  by (cases "map_of (audio s) N") (simp_all add: stopSound_bound stopSound_unbound)

lemma audio_exec: "audio (snd (exec c s)) = audio s"
  by (cases c) (simp_all add: audio_playSound audio_stopSound)

lemma audio_run: "audio (run cs s) = audio s"
  by (induction cs arbitrary: s) (simp_all add: audio_exec)

lemma loaded_exec: "loaded s \<Longrightarrow> loaded (snd (exec c s))"
  by (simp add: loaded_def audio_exec)

subsection \<open>One call of a sequence\<close>

lemma trace_step:
  "loaded s \<Longrightarrow> (s1, c, s2) \<in> set (trace cs s) \<Longrightarrow> loaded s1 \<and> s2 = snd (exec c s1)"
proof (induction cs arbitrary: s)
  case Nil
  then show ?case by simp
next
  case (Cons d ds)
  from Cons.prems(2) consider "(s1, c, s2) = (s, d, snd (exec d s))"
    | "(s1, c, s2) \<in> set (trace ds (snd (exec d s)))"
    by auto
  then show ?case
  proof cases
    case 1
    with Cons.prems(1) show ?thesis by simp
  next
    case 2
    from Cons.IH [OF loaded_exec [OF Cons.prems(1)] 2] show ?thesis .
  qed
qed

lemma flag_step:
  assumes "loaded s" and "M \<in> set sound_names"
  shows "\<exists>b a. map_option status (clip s M) = Some b \<and>
           map_option status (clip (snd (exec c s)) M) = Some a \<and>
           (if target c = M then fst (exec c s) = Inr () \<and> flag_transition b c a else a = b)"
proof -
  from assms obtain r where r: "map_of (audio s) M = Some r"
    using loaded_valid by blast
  show ?thesis
  proof (cases "target c = M")
    case True
    show ?thesis
    proof (cases c)
      case (PlaySound N)
      with True r show ?thesis
        by (cases "status (heap s r)") (simp_all add: playSound_bound clip_def)
    next
      case (StopSound N)
      with True r show ?thesis
        by (cases "status (heap s r)") (simp_all add: stopSound_bound clip_def)
    qed
  next
    case False
    show ?thesis
    proof (cases "map_of (audio s) (target c)")
      case None
      with False r show ?thesis
        by (cases c) (simp_all add: playSound_unbound stopSound_unbound clip_def)
    next
      case (Some r')
      with r False assms(1) have "r' \<noteq> r"
        using loaded_distinct by blast
      with Some False r show ?thesis
        by (cases c) (simp_all add: playSound_bound stopSound_bound clip_def)
    qed
  qed
qed

section \<open>The claims\<close>

text \<open>
  C1. For every name outside the five registered ones, \<open>playSound\<close> and
  \<open>stopSound\<close> both end in the runtime's error, handed to the caller: nothing in the
  module catches it. This holds for a name that \<open>Object.prototype\<close> supplies as well,
  where the lookup yields an object but the method call on it fails.
\<close>

theorem unknown_name_fails:
  "loaded s \<Longrightarrow> N \<notin> set sound_names \<Longrightarrow>
     fst (playSound N s) = Inl TypeError \<and> fst (stopSound N s) = Inl TypeError"
  by (simp add: loaded_invalid playSound_unbound stopSound_unbound)

theorem unknown_name_fails_witness:
  "loaded init_state \<and> ''toString'' \<notin> set sound_names \<and>
     fst (playSound ''toString'' init_state) = Inl TypeError \<and>
     fst (stopSound ''toString'' init_state) = Inl TypeError"
  using unknown_name_fails [of init_state "''toString''"]
  by (simp add: loaded_def sound_names_def)

text \<open>
  C2. For every registered name, \<open>stopSound\<close> returns, leaves the element idle and
  at position zero, and a play that follows starts at position zero. In particular a
  play of the alert followed by a stop of it leaves the alert idle at position zero.
\<close>

theorem stopSound_halts_and_rewinds:
  "loaded s \<Longrightarrow> N \<in> set sound_names \<Longrightarrow>
     fst (stopSound N s) = Inr () \<and>
     map_option status (clip (snd (stopSound N s)) N) = Some Idle \<and>
     map_option currentTime (clip (snd (stopSound N s)) N) = Some 0 \<and>
     map_option status (clip (snd (playSound N (snd (stopSound N s)))) N) = Some Playing \<and>
     map_option currentTime (clip (snd (playSound N (snd (stopSound N s)))) N) = Some 0 \<and>
     map_option status (clip (snd (stopSound ''alert'' (snd (playSound ''alert'' s)))) ''alert'')
       = Some Idle \<and>
     map_option currentTime (clip (snd (stopSound ''alert'' (snd (playSound ''alert'' s)))) ''alert'')
       = Some 0"
proof -
  assume s: "loaded s" and N: "N \<in> set sound_names"
  from s N obtain r where r: "map_of (audio s) N = Some r"
    using loaded_valid by blast
  have a: "map_of (audio s) ''alert'' = Some 0"
    using s by (simp add: loaded_def audio_init_state)
  from r have "fst (stopSound N s) = Inr ()"
    and "map_option status (clip (snd (stopSound N s)) N) = Some Idle"
    and "map_option currentTime (clip (snd (stopSound N s)) N) = Some 0"
    and "map_option status (clip (snd (playSound N (snd (stopSound N s)))) N) = Some Playing"
    and "map_option currentTime (clip (snd (playSound N (snd (stopSound N s)))) N) = Some 0"
    by (simp_all add: stopSound_bound playSound_bound clip_def)
  moreover from a have
    "map_option status (clip (snd (stopSound ''alert'' (snd (playSound ''alert'' s)))) ''alert'')
       = Some Idle"
    and
    "map_option currentTime (clip (snd (stopSound ''alert'' (snd (playSound ''alert'' s)))) ''alert'')
       = Some 0"
    by (simp_all add: stopSound_bound playSound_bound clip_def)
  ultimately show ?thesis by simp
qed

theorem stopSound_halts_and_rewinds_witness:
  "loaded alert_playing \<and> ''alert'' \<in> set sound_names \<and>
     map_option status (clip alert_playing ''alert'') = Some Playing \<and>
     map_option currentTime (clip alert_playing ''alert'') = Some (5 / 2) \<and>
     fst (stopSound ''alert'' alert_playing) = Inr () \<and>
     map_option status (clip (snd (stopSound ''alert'' alert_playing)) ''alert'') = Some Idle \<and>
     map_option currentTime (clip (snd (stopSound ''alert'' alert_playing)) ''alert'') = Some 0"
  using stopSound_halts_and_rewinds [of alert_playing "''alert''"]
  by (simp add: loaded_def sound_names_def alert_playing_def clip_def audio_init_state)

text \<open>
  C3. For every registered name and whatever the element's state, \<open>stopSound\<close> does
  not raise, a second consecutive call does not raise either and leaves the store that
  the first call left: the element idle, at position zero.
\<close>

theorem stopSound_idempotent:
  "loaded s \<Longrightarrow> N \<in> set sound_names \<Longrightarrow>
     fst (stopSound N s) = Inr () \<and>
     fst (stopSound N (snd (stopSound N s))) = Inr () \<and>
     snd (stopSound N (snd (stopSound N s))) = snd (stopSound N s) \<and>
     map_option status (clip (snd (stopSound N (snd (stopSound N s)))) N) = Some Idle \<and>
     map_option currentTime (clip (snd (stopSound N (snd (stopSound N s)))) N) = Some 0"
proof -
  assume "loaded s" and "N \<in> set sound_names"
  then obtain r where r: "map_of (audio s) N = Some r"
    using loaded_valid by blast
  let ?s' = "s\<lparr>heap := (heap s)(r := (heap s r)\<lparr>status := Idle, currentTime := 0\<rparr>)\<rparr>"
  have once: "stopSound N s = (Inr (), ?s')"
    using r by (rule stopSound_bound)
  have "map_of (audio ?s') N = Some r"
    using r by simp
  then have twice: "stopSound N ?s' = (Inr (), ?s')"
    by (simp add: stopSound_bound)
  from once twice r show ?thesis
    by (simp add: clip_def)
qed

theorem stopSound_idempotent_witness:
  "loaded init_state \<and> ''success'' \<in> set sound_names \<and>
     map_option status (clip init_state ''success'') = Some Idle \<and>
     fst (stopSound ''success'' init_state) = Inr () \<and>
     snd (stopSound ''success'' (snd (stopSound ''success'' init_state)))
       = snd (stopSound ''success'' init_state) \<and>
     map_option currentTime (clip (snd (stopSound ''success'' init_state)) ''success'') = Some 0"
proof -
  have h: "loaded init_state" "''success'' \<in> set sound_names"
    by (simp_all add: loaded_def sound_names_def)
  have m: "map_of (audio init_state) ''success'' = Some 1"
    by (simp add: audio_init_state)
  have "map_option status (clip init_state ''success'') = Some Idle"
    by (simp add: clip_def audio_init_state heap_init_state Audio_def)
  moreover have
    "map_option currentTime (clip (snd (stopSound ''success'' init_state)) ''success'') = Some 0"
    using m by (simp add: stopSound_bound clip_def)
  ultimately show ?thesis
    using h stopSound_idempotent [OF h] by simp
qed

text \<open>
  C4. For every registered name \<open>playSound\<close> returns normally, whatever the state of
  the element, a failing resource included: the promise of the play command is dropped
  and never turns into an exception of \<open>playSound\<close>.
\<close>

theorem playSound_valid_returns:
  "loaded s \<Longrightarrow> N \<in> set sound_names \<Longrightarrow> fst (playSound N s) = Inr ()"
proof -
  assume "loaded s" and "N \<in> set sound_names"
  then obtain r where "map_of (audio s) N = Some r"
    using loaded_valid by blast
  then show ?thesis by (simp add: playSound_bound)
qed

theorem playSound_valid_returns_witness:
  "loaded alert_broken \<and> ''alert'' \<in> set sound_names \<and>
     map_option (\<lambda>c. fst (play c)) (clip alert_broken ''alert'') = Some Rejected \<and>
     fst (playSound ''alert'' alert_broken) = Inr ()"
  using playSound_valid_returns [of alert_broken "''alert''"]
  by (simp add: loaded_def sound_names_def alert_broken_def clip_def audio_init_state play_def)

text \<open>
  C5. Neither \<open>playSound\<close> nor \<open>stopSound\<close>, with any argument, changes the
  properties of \<open>audio\<close>: after every sequence of calls the names are bound to the
  same elements as before, and from the initial store the keys are the five names.
\<close>

theorem registry_never_changes:
  "audio (snd (playSound N s)) = audio s \<and>
   audio (snd (stopSound N s)) = audio s \<and>
   audio (run cs s) = audio s \<and>
   map fst (audio (run cs init_state)) = sound_names"
  by (simp add: audio_playSound audio_stopSound audio_run audio_init_state sound_names_def)

text \<open>
  C6. \<open>playSound\<close> with an unregistered name raises and leaves the store as it was:
  every element keeps its flag and its position.
\<close>

theorem playSound_unknown_atomic:
  "loaded s \<Longrightarrow> N \<notin> set sound_names \<Longrightarrow>
     playSound N s = (Inl TypeError, s) \<and> clip (snd (playSound N s)) M = clip s M"
  by (simp add: loaded_invalid playSound_unbound)

theorem playSound_unknown_atomic_witness:
  "loaded alert_playing \<and> ''missing-name'' \<notin> set sound_names \<and>
     playSound ''missing-name'' alert_playing = (Inl TypeError, alert_playing) \<and>
     clip (snd (playSound ''missing-name'' alert_playing)) ''alert'' = clip alert_playing ''alert''"
  using playSound_unknown_atomic [of alert_playing "''missing-name''" "''alert''"]
  by (simp add: loaded_def sound_names_def alert_playing_def)

text \<open>
  C7. The registry is initialised with exactly the five entries of the configuration
  table, in this order and with these paths, and with no other entry.
\<close>

theorem registry_initial_entries:
  "map (\<lambda>(k, r). (k, src (heap init_state r))) (audio init_state) =
     [(''alert'', ''/sound/alert.wav''),
      (''success'', ''/sound/success.wav''),
      (''error'', ''/sound/error.wav''),
      (''btn-on'', ''/sound/btn_on.ogg''),
      (''btn-off'', ''/sound/btn_off.ogg'')]"
  by (simp add: audio_init_state heap_init_state Audio_def)

text \<open>
  C8. In every sequence of calls from a loaded store, each call moves the
  flag of the element it names by one of four transitions: idle to playing by a play,
  playing to idle by a stop, playing to playing by a repeated play, idle to idle by a
  stop of an idle element; the call returns normally, and the flag of every other
  element stays as it is. Two plays of btn-on in succession do not raise and leave the
  element playing.
\<close>

theorem flag_transitions:
  "loaded s \<Longrightarrow>
     (\<forall>(s1, c, s2) \<in> set (trace cs s). \<forall>M \<in> set sound_names.
        \<exists>b a. map_option status (clip s1 M) = Some b \<and>
          map_option status (clip s2 M) = Some a \<and>
          (if target c = M then fst (exec c s1) = Inr () \<and> flag_transition b c a
           else a = b)) \<and>
     fst (playSound ''btn-on'' s) = Inr () \<and>
     fst (playSound ''btn-on'' (snd (playSound ''btn-on'' s))) = Inr () \<and>
     map_option status (clip (snd (playSound ''btn-on'' (snd (playSound ''btn-on'' s)))) ''btn-on'')
       = Some Playing"
proof -
  assume s: "loaded s"
  have steps: "\<forall>(s1, c, s2) \<in> set (trace cs s). \<forall>M \<in> set sound_names.
        \<exists>b a. map_option status (clip s1 M) = Some b \<and>
          map_option status (clip s2 M) = Some a \<and>
          (if target c = M then fst (exec c s1) = Inr () \<and> flag_transition b c a
           else a = b)"
  proof (intro ballI, clarify)
    fix s1 c s2 M
    assume "(s1, c, s2) \<in> set (trace cs s)" and M: "M \<in> set sound_names"
    with s have "loaded s1" and "s2 = snd (exec c s1)"
      using trace_step by blast+
    with M show "\<exists>b a. map_option status (clip s1 M) = Some b \<and>
          map_option status (clip s2 M) = Some a \<and>
          (if target c = M then fst (exec c s1) = Inr () \<and> flag_transition b c a
           else a = b)"
      using flag_step by blast
  qed
  have b: "map_of (audio s) ''btn-on'' = Some 3"
    using s by (simp add: loaded_def audio_init_state)
  then have "fst (playSound ''btn-on'' s) = Inr ()"
    and "fst (playSound ''btn-on'' (snd (playSound ''btn-on'' s))) = Inr ()"
    and "map_option status
           (clip (snd (playSound ''btn-on'' (snd (playSound ''btn-on'' s)))) ''btn-on'')
         = Some Playing"
    by (simp_all add: playSound_bound clip_def)
  with steps show ?thesis by simp
qed

theorem flag_transitions_witness:
  "loaded init_state \<and>
     (init_state, StopSound ''success'', snd (stopSound ''success'' init_state))
        \<in> set (trace [StopSound ''success'', PlaySound ''btn-on''] init_state) \<and>
     ''success'' \<in> set sound_names \<and>
     (\<exists>b a. map_option status (clip init_state ''success'') = Some b \<and>
        map_option status (clip (snd (stopSound ''success'' init_state)) ''success'') = Some a \<and>
        flag_transition b (StopSound ''success'') a) \<and>
     map_option status
       (clip (snd (playSound ''btn-on'' (snd (playSound ''btn-on'' init_state)))) ''btn-on'')
       = Some Playing"
proof -
  have h: "loaded init_state"
    by (simp add: loaded_def)
  have t: "(init_state, StopSound ''success'', snd (stopSound ''success'' init_state))
        \<in> set (trace [StopSound ''success'', PlaySound ''btn-on''] init_state)"
    by simp
  have n: "''success'' \<in> set sound_names"
    by (simp add: sound_names_def)
  from flag_transitions [OF h, of "[StopSound ''success'', PlaySound ''btn-on'']"] t n h
  show ?thesis by fastforce
qed

text \<open>
  With the three transitions of the spec alone the statement fails: stopping the success
  sound in the initial store returns normally and takes its element from idle to idle,
  which is none of the three.
\<close>

theorem stop_on_idle_is_unlisted:
  "fst (stopSound ''success'' init_state) = Inr () \<and>
   map_option status (clip init_state ''success'') = Some Idle \<and>
   map_option status (clip (snd (stopSound ''success'' init_state)) ''success'') = Some Idle \<and>
   \<not> spec_transition Idle (StopSound ''success'') Idle"
proof -
  have m: "map_of (audio init_state) ''success'' = Some 1"
    by (simp add: audio_init_state)
  have "map_option status (clip init_state ''success'') = Some Idle"
    by (simp add: clip_def audio_init_state heap_init_state Audio_def)
  with m show ?thesis
    by (simp add: stopSound_bound clip_def)
qed

text \<open>
  C9. For registered names \<open>N\<close> and \<open>M\<close> that differ, \<open>playSound N\<close> and
  \<open>stopSound N\<close> leave the element bound to \<open>M\<close> exactly as it was.
\<close>

theorem other_clips_untouched:
  "loaded s \<Longrightarrow> N \<in> set sound_names \<Longrightarrow> M \<in> set sound_names \<Longrightarrow> M \<noteq> N \<Longrightarrow>
     clip s M \<noteq> None \<and>
     clip (snd (playSound N s)) M = clip s M \<and>
     clip (snd (stopSound N s)) M = clip s M"
proof -
  assume s: "loaded s" and N: "N \<in> set sound_names" and M: "M \<in> set sound_names"
    and ne: "M \<noteq> N"
  from s N obtain r where r: "map_of (audio s) N = Some r"
    using loaded_valid by blast
  from s M obtain r' where r': "map_of (audio s) M = Some r'"
    using loaded_valid by blast
  from s r r' ne have "r' \<noteq> r"
    using loaded_distinct by blast
  with r r' show ?thesis
    by (simp add: playSound_bound stopSound_bound clip_def)
qed

theorem other_clips_untouched_witness:
  "loaded alert_playing \<and> ''error'' \<in> set sound_names \<and> ''alert'' \<in> set sound_names \<and>
     ''alert'' \<noteq> ''error'' \<and>
     map_option status (clip alert_playing ''alert'') = Some Playing \<and>
     clip (snd (playSound ''error'' alert_playing)) ''alert'' = clip alert_playing ''alert'' \<and>
     clip (snd (stopSound ''error'' alert_playing)) ''alert'' = clip alert_playing ''alert''"
  using other_clips_untouched [of alert_playing "''error''" "''alert''"]
  by (simp add: loaded_def sound_names_def alert_playing_def clip_def audio_init_state)

text \<open>
  C10. \<open>stopSound\<close> with an unregistered name fails in its first statement, the
  pause, so the assignment of the position is not reached and the store is as before.
\<close>

theorem stopSound_unknown_atomic:
  "loaded s \<Longrightarrow> N \<notin> set sound_names \<Longrightarrow>
     stmt_pause N s = (Inl TypeError, s) \<and> stopSound N s = (Inl TypeError, s)"
  by (simp add: loaded_invalid stmt_pause_unbound stopSound_unbound)

theorem stopSound_unknown_atomic_witness:
  "loaded alert_playing \<and> ''__proto__'' \<notin> set sound_names \<and>
     stmt_pause ''__proto__'' alert_playing = (Inl TypeError, alert_playing) \<and>
     stopSound ''__proto__'' alert_playing = (Inl TypeError, alert_playing)"
  using stopSound_unknown_atomic [of alert_playing "''__proto__''"]
  by (simp add: loaded_def sound_names_def alert_playing_def)

end
